theory Spec2Isabelle
  imports Complex_Main "HOL-Library.Multiset"
begin

section \<open>Values and exceptions of the Python program\<close>

text \<open>
  The program \<^verbatim>\<open>leetcode_sorter.py\<close> works on what \<^verbatim>\<open>json.load\<close> and
  \<^verbatim>\<open>response.json()\<close> return: \<^verbatim>\<open>None\<close>, booleans, integers, floats, strings, lists and
  dictionaries with string keys.  Python floats are idealised as real numbers: no rounding of
  intermediate results, no NaN or infinity, and of the overflows only that of the
  normalizer's division.  A dictionary is an association list read with \<open>map_of\<close>; a
  loaded JSON object has unique keys.  Strings are ASCII.
\<close>

datatype json =
    JNull
  | JBool bool
  | JInt int
  | JFloat real
  | JStr string
  | JArr "json list"
  | JObj "(string \<times> json) list"

datatype error =
    AttributeError
  | TypeError
  | ValueError
  | KeyError
  | OSError
  | JSONDecodeError
  | OverflowError
  | ZeroDivisionError

definition and_then :: "error + 'a \<Rightarrow> ('a \<Rightarrow> error + 'b) \<Rightarrow> error + 'b" where
  "and_then r f = (case r of Inl e \<Rightarrow> Inl e | Inr v \<Rightarrow> f v)"

text \<open>Truth value of an object, as \<^verbatim>\<open>not x\<close> and \<^verbatim>\<open>if x:\<close> test it.\<close>

fun truthy :: "json \<Rightarrow> bool" where
  "truthy JNull = False"
| "truthy (JBool b) = b"
| "truthy (JInt n) = (n \<noteq> 0)"
| "truthy (JFloat r) = (r \<noteq> 0)"
| "truthy (JStr s) = (s \<noteq> [])"
| "truthy (JArr xs) = (xs \<noteq> [])"
| "truthy (JObj kvs) = (kvs \<noteq> [])"

text \<open>\<^verbatim>\<open>d.get(key, default)\<close>: only a dictionary has the method.\<close>

fun dict_get :: "json \<Rightarrow> string \<Rightarrow> json \<Rightarrow> error + json" where
  "dict_get (JObj kvs) k d = Inr (case map_of kvs k of None \<Rightarrow> d | Some v \<Rightarrow> v)"
| "dict_get _ k d = Inl AttributeError"

text \<open>\<^verbatim>\<open>len(x)\<close> and iteration \<^verbatim>\<open>for item in x\<close>.\<close>

fun py_len :: "json \<Rightarrow> error + nat" where
  "py_len (JStr s) = Inr (length s)"
| "py_len (JArr xs) = Inr (length xs)"
| "py_len (JObj kvs) = Inr (length kvs)"
| "py_len _ = Inl TypeError"

fun py_iter :: "json \<Rightarrow> error + json list" where
  "py_iter (JArr xs) = Inr xs"
| "py_iter (JObj kvs) = Inr (map (\<lambda>kv. JStr (fst kv)) kvs)"
| "py_iter (JStr s) = Inr (map (\<lambda>c. JStr [c]) s)"
| "py_iter _ = Inl TypeError"

subsection \<open>The conversion \<^verbatim>\<open>int(x)\<close>\<close>

text \<open>
  A string is stripped of surrounding whitespace, may carry one sign, and is a run of decimal
  digits in which single underscores may separate digits.  (The interpreter's limit on the
  number of digits is not modelled.)
\<close>

definition is_space :: "char \<Rightarrow> bool" where
  "is_space c \<longleftrightarrow> of_char c \<in> {9, 10, 11, 12, 13, 32 :: nat}"

definition strip :: "string \<Rightarrow> string" where
  "strip s = rev (dropWhile is_space (rev (dropWhile is_space s)))"

definition digit_val :: "char \<Rightarrow> int option" where
  "digit_val c =
     (if 48 \<le> (of_char c :: nat) \<and> (of_char c :: nat) \<le> 57
      then Some (int (of_char c) - 48) else None)"

fun int_body :: "string \<Rightarrow> int \<Rightarrow> int option" where
  "int_body [] acc = Some acc"
| "int_body [c] acc =
     (case digit_val c of None \<Rightarrow> None | Some v \<Rightarrow> Some (acc * 10 + v))"
| "int_body (c # d # ds) acc =
     (if c = CHR ''_''
      then (case digit_val d of None \<Rightarrow> None | Some v \<Rightarrow> int_body ds (acc * 10 + v))
      else (case digit_val c of None \<Rightarrow> None | Some v \<Rightarrow> int_body (d # ds) (acc * 10 + v)))"

definition unsigned_int :: "string \<Rightarrow> int option" where
  "unsigned_int s =
     (case s of [] \<Rightarrow> None
      | d # ds \<Rightarrow> (case digit_val d of None \<Rightarrow> None | Some v \<Rightarrow> int_body ds v))"

definition int_of_str :: "string \<Rightarrow> int option" where
  "int_of_str s =
     (case strip s of [] \<Rightarrow> None
      | c # cs \<Rightarrow>
          if c = CHR ''-'' then map_option uminus (unsigned_int cs)
          else if c = CHR ''+'' then unsigned_int cs
          else unsigned_int (c # cs))"

fun py_int :: "json \<Rightarrow> error + int" where
  "py_int JNull = Inl TypeError"
| "py_int (JBool b) = Inr (if b then 1 else 0)"
| "py_int (JInt n) = Inr n"
| "py_int (JFloat r) = Inr (if 0 \<le> r then \<lfloor>r\<rfloor> else \<lceil>r\<rceil>)"
| "py_int (JStr s) = (case int_of_str s of None \<Rightarrow> Inl ValueError | Some n \<Rightarrow> Inr n)"
| "py_int (JArr xs) = Inl TypeError"
| "py_int (JObj kvs) = Inl TypeError"

section \<open>The canonical item\<close>

text \<open>
  The dictionary \<^verbatim>\<open>process_problems\<close> appends.  \<^verbatim>\<open>title\<close> and \<^verbatim>\<open>slug\<close> are whatever
  the raw record holds.  The key \<^verbatim>\<open>id\<close> is the field \<open>id_field\<close>.  The f-string of
  \<^verbatim>\<open>url\<close> is kept as its parts: literal text and the formatted value.  The key
  \<^verbatim>\<open>trueDifficultyScore\<close> is absent (\<open>None\<close>) until the item is scored.
\<close>

datatype fpart = Lit string | Fmt json

record problem =
  id_field :: int
  title :: json
  slug :: json
  difficulty :: string
  totalAccepted :: int
  totalSubmissions :: int
  acceptanceRate :: real
  url :: "fpart list"
  trueDifficultyScore :: "real option"

definition DIFFICULTY_API_MAP :: "int \<Rightarrow> string option" where
  "DIFFICULTY_API_MAP = map_of [(1, ''Easy''), (2, ''Medium''), (3, ''Hard'')]"

section \<open>The normalizer: \<^verbatim>\<open>process_problems\<close>\<close>

text \<open>
  The true division \<^verbatim>\<open>a / b\<close> of two integers.  It raises when the divisor is zero, and
  when the quotient, rounded to the nearest float, is beyond the largest float: when its
  magnitude is at least \<open>2^1024 - 2^970\<close>.  Otherwise the result is the quotient (its
  rounding to a float is idealised away).
\<close>

definition true_divide :: "int \<Rightarrow> int \<Rightarrow> error + real" where
  "true_divide a b =
     (if b = 0 then Inl ZeroDivisionError
      else if 2 ^ 1024 - 2 ^ 970 \<le> \<bar>real_of_int a / real_of_int b\<bar> then Inl OverflowError
      else Inr (real_of_int a / real_of_int b))"

text \<open>
  The body of the \<^verbatim>\<open>try\<close> block (lines 116 to 139), in the order of the source.
  \<open>Inr None\<close> is a \<^verbatim>\<open>continue\<close>, \<open>Inl e\<close> a raised exception.
\<close>

definition convert_record :: "json \<Rightarrow> json \<Rightarrow> error + problem option" where
  "convert_record stat difficulty_info =
     and_then (dict_get stat ''frontend_question_id'' (JInt 0)) (\<lambda>v1.
     and_then (py_int v1) (\<lambda>frontend_id.
     and_then (dict_get stat ''question__title'' (JStr ''N/A'')) (\<lambda>title_val.
     and_then (dict_get stat ''question__title_slug'' (JStr ''N/A'')) (\<lambda>slug_val.
     and_then (dict_get stat ''total_acs'' (JInt 0)) (\<lambda>v2.
     and_then (py_int v2) (\<lambda>total_accepted_val.
     and_then (dict_get stat ''total_submitted'' (JInt 0)) (\<lambda>v3.
     and_then (py_int v3) (\<lambda>total_submitted_val.
     and_then (dict_get difficulty_info ''level'' (JInt 0)) (\<lambda>v4.
     and_then (py_int v4) (\<lambda>difficulty_level.
       if slug_val = JStr ''N/A'' \<or> frontend_id = 0 \<or> difficulty_level = 0 then Inr None
       else
         and_then (if total_submitted_val > 0
                   then true_divide total_accepted_val total_submitted_val
                   else Inr 0) (\<lambda>acceptance_rate.
         let difficulty_str =
               (case DIFFICULTY_API_MAP difficulty_level of
                  None \<Rightarrow> ''Unknown'' | Some s \<Rightarrow> s)
         in if difficulty_str = ''Unknown'' then Inr None
            else Inr (Some \<lparr>
              id_field = frontend_id,
              title = title_val,
              slug = slug_val,
              difficulty = difficulty_str,
              totalAccepted = total_accepted_val,
              totalSubmissions = total_submitted_val,
              acceptanceRate = acceptance_rate,
              url = [Lit ''https://leetcode.com/problems/'', Fmt slug_val, Lit ''/''],
              trueDifficultyScore = None \<rparr>))))))))))))"

text \<open>
  \<^verbatim>\<open>except (TypeError, ValueError)\<close>: warn and continue; anything else (the
  \<^verbatim>\<open>AttributeError\<close> of a block that is no dictionary, the \<^verbatim>\<open>OverflowError\<close> of the
  division) propagates.
\<close>

definition except_skip :: "error + problem option \<Rightarrow> error + problem option" where
  "except_skip r =
     (case r of
        Inl e \<Rightarrow> if e = TypeError \<or> e = ValueError then Inr None else Inl e
      | Inr v \<Rightarrow> Inr v)"

text \<open>One iteration of the loop (lines 109 to 148) on one raw record.\<close>

definition process_record :: "json \<Rightarrow> error + problem option" where
  "process_record prob_data =
     and_then (dict_get prob_data ''stat'' JNull) (\<lambda>stat.
     and_then (dict_get prob_data ''difficulty'' JNull) (\<lambda>difficulty_info.
       if \<not> truthy stat \<or> \<not> truthy difficulty_info then Inr None
       else and_then (dict_get prob_data ''paid_only'' (JBool False)) (\<lambda>paid.
         if truthy paid then Inr None
         else except_skip (convert_record stat difficulty_info))))"

text \<open>
  The loop, carrying \<^verbatim>\<open>processed\<close> and the three running maxima.
\<close>

fun process_loop ::
  "json list \<Rightarrow> problem list \<times> int \<times> int \<times> int \<Rightarrow> error + (problem list \<times> int \<times> int \<times> int)"
where
  "process_loop [] acc = Inr acc"
| "process_loop (prob_data # rest) (processed, max_frontend_id, max_submissions, max_accepted) =
     (case process_record prob_data of
        Inl e \<Rightarrow> Inl e
      | Inr None \<Rightarrow>
          process_loop rest (processed, max_frontend_id, max_submissions, max_accepted)
      | Inr (Some p) \<Rightarrow>
          process_loop rest
            (processed @ [p],
             max max_frontend_id (id_field p),
             max max_submissions (totalSubmissions p),
             max max_accepted (totalAccepted p)))"

definition process_problems :: "json \<Rightarrow> error + (problem list \<times> int \<times> int \<times> int)" where
  "process_problems raw_problems_list =
     (if \<not> truthy raw_problems_list then Inr ([], 0, 0, 0)
      else
        and_then (py_iter raw_problems_list) (\<lambda>records.
        and_then (process_loop records ([], 0, 0, 0))
          (\<lambda>(processed, max_frontend_id, max_submissions, max_accepted).
             Inr (processed, max 1 max_frontend_id, max 1 max_submissions, max 1 max_accepted))))"

section \<open>The scoring engine: \<^verbatim>\<open>calculate_true_difficulty_score\<close>\<close>

definition DIFFICULTY_SCORE_BASE_MAP :: "string \<Rightarrow> int option" where
  "DIFFICULTY_SCORE_BASE_MAP = map_of [(''Easy'', 80), (''Medium'', 200), (''Hard'', 450)]"

text \<open>The four entries of \<^verbatim>\<open>WEIGHTS\<close>.\<close>

definition acceptance_rate_impact :: real where
  "acceptance_rate_impact = 300"

definition low_total_accepted_penalty :: real where
  "low_total_accepted_penalty = 150"

definition high_popularity_discount :: real where
  "high_popularity_discount = - 80"

definition newness_premium :: real where
  "newness_premium = 70"

definition log1p :: "real \<Rightarrow> real" where
  "log1p x = ln (1 + x)"

text \<open>
  \<^verbatim>\<open>round(x, ndigits)\<close> on an exact value: the nearest multiple of \<open>10^(-ndigits)\<close>, a tie
  going to the even one.  The code rounds the float that approximates the sum, so where the
  exact sum is such a tie the code's result can be the other neighbour.
\<close>

definition round_half_even :: "real \<Rightarrow> int" where
  "round_half_even x =
     (let f = \<lfloor>x\<rfloor>; d = x - of_int f
      in if d < 1 / 2 then f
         else if d > 1 / 2 then f + 1
         else if even f then f else f + 1)"

definition py_round :: "real \<Rightarrow> nat \<Rightarrow> real" where
  "py_round x ndigits = of_int (round_half_even (x * 10 ^ ndigits)) / 10 ^ ndigits"

text \<open>The five amounts added to \<^verbatim>\<open>score\<close> (steps 1 to 5 of the source).\<close>

definition base_score :: "problem \<Rightarrow> real" where
  "base_score p =
     (case DIFFICULTY_SCORE_BASE_MAP (difficulty p) of None \<Rightarrow> 0 | Some b \<Rightarrow> of_int b)"

definition acceptance_term :: "problem \<Rightarrow> real" where
  "acceptance_term p = (1 - acceptanceRate p) * acceptance_rate_impact"

definition low_accepted_term :: "problem \<Rightarrow> real \<Rightarrow> real" where
  "low_accepted_term p max_accepted_log =
     (if totalAccepted p \<ge> 0 \<and> max_accepted_log > 0
      then (1 - log1p (of_int (totalAccepted p)) / max_accepted_log) * low_total_accepted_penalty
      else 0)"

definition popularity_term :: "problem \<Rightarrow> real \<Rightarrow> real" where
  "popularity_term p max_submissions_log =
     (if totalSubmissions p > 0 \<and> max_submissions_log > 0
      then log1p (of_int (totalSubmissions p)) / max_submissions_log * high_popularity_discount
      else 0)"

definition newness_term :: "problem \<Rightarrow> int \<Rightarrow> real" where
  "newness_term p max_frontend_id =
     (if max_frontend_id > 0
      then of_int (id_field p) / of_int max_frontend_id * newness_premium
      else 0)"

definition raw_score :: "problem \<Rightarrow> int \<Rightarrow> real \<Rightarrow> real \<Rightarrow> real" where
  "raw_score p max_frontend_id max_submissions_log max_accepted_log =
     0 + base_score p + acceptance_term p + low_accepted_term p max_accepted_log
       + popularity_term p max_submissions_log + newness_term p max_frontend_id"

text \<open>The dictionary after line 188 has stored the rounded score under its key.\<close>

definition score_problem :: "problem \<Rightarrow> int \<Rightarrow> real \<Rightarrow> real \<Rightarrow> problem" where
  "score_problem p max_frontend_id max_submissions_log max_accepted_log =
     p\<lparr>trueDifficultyScore :=
         Some (py_round (raw_score p max_frontend_id max_submissions_log max_accepted_log) 2)\<rparr>"

text \<open>
  The function receives a reference to a dictionary, assigns to one key of that dictionary
  and returns the reference.  The store maps references to dictionaries.
\<close>

type_synonym ref = nat
type_synonym store = "ref \<Rightarrow> problem"

definition calculate_true_difficulty_score ::
  "store \<Rightarrow> ref \<Rightarrow> int \<Rightarrow> real \<Rightarrow> real \<Rightarrow> ref \<times> store"
where
  "calculate_true_difficulty_score st problem max_frontend_id max_submissions_log max_accepted_log =
     (problem,
      st(problem :=
           score_problem (st problem) max_frontend_id max_submissions_log max_accepted_log))"

text \<open>\<^verbatim>\<open>r['trueDifficultyScore']\<close> and \<^verbatim>\<open>r\<close> itself for the returned reference.\<close>

definition returned_problem :: "ref \<times> store \<Rightarrow> problem" where
  "returned_problem res = snd res (fst res)"

definition returned_score :: "ref \<times> store \<Rightarrow> real option" where
  "returned_score res = trueDifficultyScore (returned_problem res)"

section \<open>Ranking: \<^verbatim>\<open>sorted(scored_problems, key=..., reverse=True)\<close>\<close>

text \<open>
  \<^verbatim>\<open>sorted\<close> computes the key of every element first, and sorts stably by the keys.  With
  \<^verbatim>\<open>reverse=True\<close> the list is reversed, sorted ascending and reversed again.
\<close>

definition py_sorted :: "('a \<Rightarrow> 'k::linorder) \<Rightarrow> bool \<Rightarrow> 'a list \<Rightarrow> 'a list" where
  "py_sorted key reverse xs =
     (if reverse then rev (sort_key key (rev xs)) else sort_key key xs)"

text \<open>The key \<^verbatim>\<open>lambda p: p['trueDifficultyScore']\<close>.\<close>

definition score_key :: "problem \<Rightarrow> error + real" where
  "score_key p = (case trueDifficultyScore p of None \<Rightarrow> Inl KeyError | Some s \<Rightarrow> Inr s)"

fun keys_of :: "problem list \<Rightarrow> error + real list" where
  "keys_of [] = Inr []"
| "keys_of (p # ps) =
     and_then (score_key p) (\<lambda>k. and_then (keys_of ps) (\<lambda>ks. Inr (k # ks)))"

definition sort_by_score :: "problem list \<Rightarrow> error + problem list" where
  "sort_by_score scored_problems =
     and_then (keys_of scored_problems) (\<lambda>ks.
       Inr (map snd (py_sorted fst True (zip ks scored_problems))))"

section \<open>The cache store\<close>

text \<open>
  The file \<^verbatim>\<open>CACHE_FILE\<close> has a modification time and a text.  The world also fixes the
  clock and how the medium fails: opening or reading for a read (\<open>read_fault\<close>), opening
  for a write (\<open>open_fault\<close>), and, for writing, after how many characters the medium
  fails (\<open>write_fault\<close>: \<open>None\<close> when it never does).  The decoder
  behind \<^verbatim>\<open>json.load\<close> and the sequence of chunks \<^verbatim>\<open>json.dump\<close> writes for a value are
  parameters.
\<close>

record cache_file =
  mtime :: real
  content :: string

record world =
  cache :: "cache_file option"
  clock :: real
  read_fault :: bool
  open_fault :: bool
  write_fault :: "nat option"

definition CACHE_EXPIRY_DAYS :: real where
  "CACHE_EXPIRY_DAYS = 1"

text \<open>\<^verbatim>\<open>None\<close> is returned as \<open>JNull\<close>.\<close>

definition load_problems_from_cache :: "(string \<Rightarrow> json option) \<Rightarrow> world \<Rightarrow> error + json" where
  "load_problems_from_cache decode w =
     (case cache w of
        None \<Rightarrow> Inr JNull
      | Some f \<Rightarrow>
          if clock w - mtime f < CACHE_EXPIRY_DAYS * 24 * 60 * 60
          then (if read_fault w then Inl OSError
                else (case decode (content f) of
                        None \<Rightarrow> Inl JSONDecodeError
                      | Some j \<Rightarrow> Inr j))
          else Inr JNull)"

text \<open>
  The file object is buffered.  Each \<^verbatim>\<open>f.write(chunk)\<close> of \<^verbatim>\<open>json.dump\<close> appends the
  chunk to the buffer and returns; \<open>write_chunks\<close> is that loop.  The buffer reaches the
  medium when it is flushed, at the latest when the \<^verbatim>\<open>with\<close> block closes the file.  A
  medium that fails after \<open>n\<close> characters keeps the first \<open>n\<close> characters of the text,
  wherever that cuts it; if the text has that many characters the failure is met, by the
  flush that reaches it or by the close, and \<^verbatim>\<open>OSError\<close> is raised: \<open>flush_buffer\<close>
  gives the text on the medium and whether flush and close succeeded.  (A flush that
  happens earlier, when the buffer is full, sends a prefix of the same text to the same
  medium and raises the same error, so the file and the outcome are the same.)
\<close>

fun write_chunks :: "string list \<Rightarrow> string \<Rightarrow> string" where
  "write_chunks [] buffer = buffer"
| "write_chunks (chunk # chunks) buffer = write_chunks chunks (buffer @ chunk)"

definition flush_buffer :: "string \<Rightarrow> nat option \<Rightarrow> string \<times> bool" where
  "flush_buffer buffer fault =
     (case fault of
        None \<Rightarrow> (buffer, True)
      | Some n \<Rightarrow> if n \<le> length buffer then (take n buffer, False) else (buffer, True))"

text \<open>
  Line 91 needs the length of the payload; \<^verbatim>\<open>open(CACHE_FILE, 'w')\<close> empties the file;
  the writes and the closing flush follow.  Nothing is caught.
\<close>

definition save_problems_to_cache ::
  "(json \<Rightarrow> string list) \<Rightarrow> world \<Rightarrow> json \<Rightarrow> world \<times> (error + unit)"
where
  "save_problems_to_cache encode w problems =
     (case py_len problems of
        Inl e \<Rightarrow> (w, Inl e)
      | Inr n \<Rightarrow>
          if open_fault w then (w, Inl OSError)
          else
            let buffer = write_chunks (encode problems) [];
                (written, ok) = flush_buffer buffer (write_fault w)
            in (w\<lparr>cache := Some \<lparr>mtime = clock w, content = written\<rparr>\<rparr>,
                if ok then Inr () else Inl OSError))"

section \<open>The fetch and the pipeline: \<^verbatim>\<open>main\<close>\<close>

text \<open>What the HTTP request gives: a failure, a body that is not JSON, or a decoded body.\<close>

datatype http_outcome = RequestFailed | BodyNotJson | Body json

fun is_substring :: "string \<Rightarrow> string \<Rightarrow> bool" where
  "is_substring k [] = (k = [])"
| "is_substring k (c # cs) = (take (length k) (c # cs) = k \<or> is_substring k cs)"

text \<open>\<^verbatim>\<open>key in data\<close> and \<^verbatim>\<open>data[key]\<close> for a string key.\<close>

fun py_contains :: "string \<Rightarrow> json \<Rightarrow> error + bool" where
  "py_contains k (JObj kvs) = Inr (map_of kvs k \<noteq> None)"
| "py_contains k (JArr xs) = Inr (JStr k \<in> set xs)"
| "py_contains k (JStr s) = Inr (is_substring k s)"
| "py_contains k _ = Inl TypeError"

fun py_getitem :: "json \<Rightarrow> string \<Rightarrow> error + json" where
  "py_getitem (JObj kvs) k = (case map_of kvs k of None \<Rightarrow> Inl KeyError | Some v \<Rightarrow> Inr v)"
| "py_getitem _ k = Inl TypeError"

text \<open>
  The request and decoding errors are caught and give \<^verbatim>\<open>None\<close>; any other exception
  leaves the function.
\<close>

definition fetch_problems_from_api_rest :: "http_outcome \<Rightarrow> error + json" where
  "fetch_problems_from_api_rest http =
     (case http of
        RequestFailed \<Rightarrow> Inr JNull
      | BodyNotJson \<Rightarrow> Inr JNull
      | Body data \<Rightarrow>
          and_then (py_contains ''stat_status_pairs'' data) (\<lambda>present.
            if present then py_getitem data ''stat_status_pairs'' else Inr JNull))"

text \<open>
  How a run ends: with an uncaught exception, at one of the three early \<^verbatim>\<open>return\<close>s, or
  with \<^verbatim>\<open>sorted_problems\<close> computed (line 234).  The report printed and exported from it
  (lines 236 to 271) is not modelled.
\<close>

datatype outcome =
    Crashed error
  | FetchFailed
  | NoProblemData
  | NoProcessable
  | Ranked "problem list"

definition log_of_max :: "int \<Rightarrow> real" where
  "log_of_max m = (if m > 0 then log1p (of_int m) else 1)"

text \<open>
  Lines 207 to 234.  The dictionaries of \<^verbatim>\<open>problems\<close> are distinct objects, so scoring them
  in turn gives the list of the scored dictionaries.
\<close>

definition rank_problems :: "json \<Rightarrow> outcome" where
  "rank_problems raw_problems_list =
     (if \<not> truthy raw_problems_list then NoProblemData
      else
        case py_len raw_problems_list of
          Inl e \<Rightarrow> Crashed e
        | Inr n \<Rightarrow>
            (case process_problems raw_problems_list of
               Inl e \<Rightarrow> Crashed e
             | Inr (problems, max_id, max_subs, max_acs) \<Rightarrow>
                 if problems = [] then NoProcessable
                 else
                   let max_submissions_log_val = log_of_max max_subs;
                       max_accepted_log_val = log_of_max max_acs;
                       scored_problems =
                         map (\<lambda>p. score_problem p max_id max_submissions_log_val
                                     max_accepted_log_val) problems
                   in (case sort_by_score scored_problems of
                         Inl e \<Rightarrow> Crashed e
                       | Inr sorted_problems \<Rightarrow> Ranked sorted_problems)))"

definition main ::
  "(string \<Rightarrow> json option) \<Rightarrow> (json \<Rightarrow> string list) \<Rightarrow> http_outcome \<Rightarrow> world
     \<Rightarrow> world \<times> outcome"
where
  "main decode encode http w =
     (case load_problems_from_cache decode w of
        Inl e \<Rightarrow> (w, Crashed e)
      | Inr raw_problems_list \<Rightarrow>
          if \<not> truthy raw_problems_list
          then (case fetch_problems_from_api_rest http of
                  Inl e \<Rightarrow> (w, Crashed e)
                | Inr fetched_data \<Rightarrow>
                    if truthy fetched_data
                    then (case save_problems_to_cache encode w fetched_data of
                            (w', Inl e) \<Rightarrow> (w', Crashed e)
                          | (w', Inr u) \<Rightarrow> (w', rank_problems fetched_data))
                    else (w, FetchFailed))
          else (w, rank_problems raw_problems_list))"

section \<open>Raw records without their core fields\<close>

text \<open>
  The value a raw record holds under a key of one of its blocks, if the record and the block
  are dictionaries and the key is present.
\<close>

definition raw_field :: "json \<Rightarrow> string \<Rightarrow> string \<Rightarrow> json option" where
  "raw_field r block key =
     (case r of
        JObj kvs \<Rightarrow> (case map_of kvs block of Some (JObj fs) \<Rightarrow> map_of fs key | _ \<Rightarrow> None)
      | _ \<Rightarrow> None)"

text \<open>
  A record whose identifier is missing or converts to zero, whose slug is missing or is the
  placeholder \<^verbatim>\<open>'N/A'\<close>, or whose difficulty level is missing or does not convert to
  1, 2 or 3.
\<close>

definition lacks_core_fields :: "json \<Rightarrow> bool" where
  "lacks_core_fields r \<longleftrightarrow>
     (case raw_field r ''stat'' ''frontend_question_id'' of
        None \<Rightarrow> True | Some v \<Rightarrow> py_int v = Inr 0)
   \<or> (case raw_field r ''stat'' ''question__title_slug'' of
        None \<Rightarrow> True | Some v \<Rightarrow> v = JStr ''N/A'')
   \<or> (case raw_field r ''difficulty'' ''level'' of
        None \<Rightarrow> True | Some v \<Rightarrow> py_int v \<notin> {Inr 1, Inr 2, Inr 3})"

section \<open>Properties of the normalizer\<close>

lemma and_then_simps [simp]:
  "and_then (Inl e) f = Inl e"
  "and_then (Inr v) f = f v"
  by (simp_all add: and_then_def)

lemma and_then_Inr_iff: "and_then r f = Inr y \<longleftrightarrow> (\<exists>v. r = Inr v \<and> f v = Inr y)"
  by (cases r) simp_all

lemma except_skip_Some: "except_skip r = Inr (Some p) \<longleftrightarrow> r = Inr (Some p)"
  by (auto simp: except_skip_def split: sum.splits)

lemma dict_get_Inr:
  "dict_get j k d = Inr v \<Longrightarrow>
     \<exists>kvs. j = JObj kvs \<and> v = (case map_of kvs k of None \<Rightarrow> d | Some w \<Rightarrow> w)"
  by (cases j) simp_all

lemma DIFFICULTY_API_MAP_Some:
  "DIFFICULTY_API_MAP n = Some s \<longleftrightarrow>
     (n = 1 \<and> s = ''Easy'') \<or> (n = 2 \<and> s = ''Medium'') \<or> (n = 3 \<and> s = ''Hard'')"
  by (auto simp: DIFFICULTY_API_MAP_def)

lemma api_map_cases:
  "(case DIFFICULTY_API_MAP lv of None \<Rightarrow> ''Unknown'' | Some s \<Rightarrow> s) \<noteq> ''Unknown''
     \<Longrightarrow> DIFFICULTY_API_MAP lv =
           Some (case DIFFICULTY_API_MAP lv of None \<Rightarrow> ''Unknown'' | Some s \<Rightarrow> s)"
  by (cases "DIFFICULTY_API_MAP lv") simp_all

lemma true_divide_Inr: "true_divide a b = Inr q \<Longrightarrow> q = real_of_int a / real_of_int b"
  by (simp add: true_divide_def split: if_splits)

lemma convert_record_Some:
  assumes "convert_record stat difficulty_info = Inr (Some p)"
  shows "\<exists>fs ds n lv.
     stat = JObj fs \<and> difficulty_info = JObj ds
   \<and> py_int (case map_of fs ''frontend_question_id'' of None \<Rightarrow> JInt 0 | Some w \<Rightarrow> w) = Inr n
   \<and> n \<noteq> 0
   \<and> id_field p = n
   \<and> slug p = (case map_of fs ''question__title_slug'' of None \<Rightarrow> JStr ''N/A'' | Some w \<Rightarrow> w)
   \<and> slug p \<noteq> JStr ''N/A''
   \<and> py_int (case map_of ds ''level'' of None \<Rightarrow> JInt 0 | Some w \<Rightarrow> w) = Inr lv
   \<and> DIFFICULTY_API_MAP lv = Some (difficulty p)
   \<and> acceptanceRate p =
        (if totalSubmissions p > 0
         then real_of_int (totalAccepted p) / real_of_int (totalSubmissions p) else 0)
   \<and> trueDifficultyScore p = None"
  using assms
  unfolding convert_record_def and_then_Inr_iff
  apply (elim exE conjE)
  apply (drule dict_get_Inr)+
  apply (elim exE conjE)
  apply (simp only: split: if_split_asm)
   apply simp
  apply (simp only: and_then_Inr_iff)
  apply (elim exE conjE)
  apply (simp_all only: Let_def json.inject split: if_split_asm)
  apply (auto dest: api_map_cases true_divide_Inr split: if_split_asm)
  done

lemma process_record_Some:
  assumes "process_record r = Inr (Some p)"
  shows "\<exists>kvs stat difficulty_info.
     r = JObj kvs
   \<and> stat = (case map_of kvs ''stat'' of None \<Rightarrow> JNull | Some w \<Rightarrow> w)
   \<and> difficulty_info = (case map_of kvs ''difficulty'' of None \<Rightarrow> JNull | Some w \<Rightarrow> w)
   \<and> convert_record stat difficulty_info = Inr (Some p)"
  using assms
  unfolding process_record_def and_then_Inr_iff
  apply (elim exE conjE)
  apply (drule dict_get_Inr)+
  apply (auto simp: except_skip_Some split: if_splits)
  done

lemma process_record_rate:
  assumes "process_record r = Inr (Some p)"
  shows "acceptanceRate p =
        (if totalSubmissions p > 0
         then real_of_int (totalAccepted p) / real_of_int (totalSubmissions p) else 0)"
  using process_record_Some [OF assms] convert_record_Some by blast

lemma lacks_core_fields_no_item:
  assumes "lacks_core_fields r"
  shows "process_record r \<noteq> Inr (Some p)"
proof
  assume "process_record r = Inr (Some p)"
  from process_record_Some [OF this] obtain kvs stat difficulty_info where
    r: "r = JObj kvs"
    and st: "stat = (case map_of kvs ''stat'' of None \<Rightarrow> JNull | Some w \<Rightarrow> w)"
    and di: "difficulty_info = (case map_of kvs ''difficulty'' of None \<Rightarrow> JNull | Some w \<Rightarrow> w)"
    and cv: "convert_record stat difficulty_info = Inr (Some p)"
    by blast
  from convert_record_Some [OF cv] obtain fs ds n lv where
    s1: "stat = JObj fs" and s2: "difficulty_info = JObj ds"
    and idn: "py_int (case map_of fs ''frontend_question_id'' of None \<Rightarrow> JInt 0 | Some w \<Rightarrow> w) = Inr n"
      "n \<noteq> 0"
    and sl: "slug p = (case map_of fs ''question__title_slug'' of None \<Rightarrow> JStr ''N/A'' | Some w \<Rightarrow> w)"
      "slug p \<noteq> JStr ''N/A''"
    and lv: "py_int (case map_of ds ''level'' of None \<Rightarrow> JInt 0 | Some w \<Rightarrow> w) = Inr lv"
      "DIFFICULTY_API_MAP lv = Some (difficulty p)"
    by blast
  have ms: "map_of kvs ''stat'' = Some (JObj fs)"
    using st s1 by (auto split: option.splits)
  have md: "map_of kvs ''difficulty'' = Some (JObj ds)"
    using di s2 by (auto split: option.splits)
  have f1: "raw_field r ''stat'' ''frontend_question_id'' = map_of fs ''frontend_question_id''"
    using ms by (simp add: raw_field_def r)
  have f2: "raw_field r ''stat'' ''question__title_slug'' = map_of fs ''question__title_slug''"
    using ms by (simp add: raw_field_def r)
  have f3: "raw_field r ''difficulty'' ''level'' = map_of ds ''level''"
    using md by (simp add: raw_field_def r)
  have lv3: "lv = 1 \<or> lv = 2 \<or> lv = 3"
    using lv(2) by (auto simp: DIFFICULTY_API_MAP_Some)
  from assms show False
    unfolding lacks_core_fields_def f1 f2 f3
    using idn sl lv(1) lv3
    by (auto split: option.splits)
qed

lemma process_loop_append:
  "process_loop (xs @ ys) acc =
     (case process_loop xs acc of Inl e \<Rightarrow> Inl e | Inr acc' \<Rightarrow> process_loop ys acc')"
proof (induction xs arbitrary: acc)
  case Nil
  show ?case by simp
next
  case (Cons x xs)
  obtain a b c d where acc: "acc = (a, b, c, d)" by (cases acc) auto
  show ?case unfolding acc
    by (simp add: Cons.IH split: sum.splits option.splits)
qed

lemma process_loop_skip:
  assumes "\<And>p. process_record r \<noteq> Inr (Some p)"
    and "process_loop (r # ys) acc = Inr res"
  shows "process_loop ys acc = Inr res"
proof -
  obtain a b c d where acc: "acc = (a, b, c, d)" by (cases acc) auto
  show ?thesis using assms unfolding acc
    by (auto split: sum.splits option.splits)
qed

lemma process_loop_items:
  assumes "process_loop rs (processed, a, b, c) = Inr (items, a', b', c')"
  shows "\<exists>new. items = processed @ new
     \<and> (\<forall>p\<in>set new. \<exists>r\<in>set rs. process_record r = Inr (Some p))
     \<and> (new = [] \<longrightarrow> a' = a \<and> b' = b \<and> c' = c)"
  using assms
proof (induction rs arbitrary: processed a b c)
  case Nil
  then show ?case by simp
next
  case (Cons r rs)
  show ?case
  proof (cases "process_record r")
    case (Inl e)
    with Cons.prems show ?thesis by simp
  next
    case (Inr v)
    show ?thesis
    proof (cases v)
      case None
      with Inr Cons.prems have "process_loop rs (processed, a, b, c) = Inr (items, a', b', c')"
        by simp
      from Cons.IH [OF this] show ?thesis by auto
    next
      case (Some p)
      with Inr Cons.prems have "process_loop rs (processed @ [p], max a (id_field p),
          max b (totalSubmissions p), max c (totalAccepted p)) = Inr (items, a', b', c')"
        by simp
      from Cons.IH [OF this] obtain new where
        "items = (processed @ [p]) @ new"
        "\<forall>q\<in>set new. \<exists>r\<in>set rs. process_record r = Inr (Some q)"
        by blast
      then have "items = processed @ (p # new)
        \<and> (\<forall>q\<in>set (p # new). \<exists>r'\<in>set (r # rs). process_record r' = Inr (Some q))
        \<and> (p # new = [] \<longrightarrow> a' = a \<and> b' = b \<and> c' = c)"
        using Inr Some by auto
      then show ?thesis by blast
    qed
  qed
qed

lemma process_loop_ids:
  assumes "process_loop rs (processed, a, b, c) = Inr (items, a', b', c')"
    and "\<forall>p\<in>set processed. id_field p \<le> a"
  shows "\<forall>p\<in>set items. id_field p \<le> a'"
  using assms
proof (induction rs arbitrary: processed a b c)
  case Nil
  then show ?case by simp
next
  case (Cons r rs)
  show ?case
  proof (cases "process_record r")
    case (Inl e)
    with Cons.prems show ?thesis by simp
  next
    case (Inr v)
    show ?thesis
    proof (cases v)
      case None
      with Inr Cons.prems have "process_loop rs (processed, a, b, c) = Inr (items, a', b', c')"
        by simp
      from Cons.IH [OF this Cons.prems(2)] show ?thesis .
    next
      case (Some q)
      with Inr Cons.prems have run: "process_loop rs (processed @ [q], max a (id_field q),
          max b (totalSubmissions q), max c (totalAccepted q)) = Inr (items, a', b', c')"
        by simp
      have "\<forall>p\<in>set (processed @ [q]). id_field p \<le> max a (id_field q)"
        using Cons.prems(2) by auto
      from Cons.IH [OF run this] show ?thesis .
    qed
  qed
qed

lemma process_problems_JArr:
  "process_problems (JArr rs) =
     (if rs = [] then Inr ([], 0, 0, 0)
      else case process_loop rs ([], 0, 0, 0) of
             Inl e \<Rightarrow> Inl e
           | Inr (items, a, b, c) \<Rightarrow> Inr (items, max 1 a, max 1 b, max 1 c))"
  by (simp add: process_problems_def split: sum.splits)

lemma process_problems_Inr:
  assumes "process_problems raw = Inr (items, max_id, max_subs, max_acs)"
  shows "(\<not> truthy raw \<and> items = [] \<and> max_id = 0 \<and> max_subs = 0 \<and> max_acs = 0)
       \<or> (truthy raw \<and> (\<exists>rs a b c. py_iter raw = Inr rs
             \<and> process_loop rs ([], 0, 0, 0) = Inr (items, a, b, c)
             \<and> max_id = max 1 a \<and> max_subs = max 1 b \<and> max_acs = max 1 c))"
proof (cases "truthy raw")
  case False
  with assms show ?thesis by (simp add: process_problems_def)
next
  case True
  have "\<exists>rs res. py_iter raw = Inr rs
      \<and> process_loop rs ([], 0, 0, 0) = Inr res
      \<and> (case res of (processed, a, b, c) \<Rightarrow>
                 Inr (processed, max 1 a, max 1 b, max 1 c)) = Inr (items, max_id, max_subs, max_acs)"
    using assms True by (simp add: process_problems_def and_then_Inr_iff)
  then obtain rs res where rs: "py_iter raw = Inr rs"
    and res: "process_loop rs ([], 0, 0, 0) = Inr res"
    and fin: "(case res of (processed, a, b, c) \<Rightarrow>
                 Inr (processed, max 1 a, max 1 b, max 1 c)) = Inr (items, max_id, max_subs, max_acs)"
    by blast
  obtain i a b c where "res = (i, a, b, c)" by (cases res) auto
  with rs res fin True show ?thesis by simp
qed

lemma process_problems_maxima_floor:
  assumes "truthy raw" and "process_problems raw = Inr (items, max_id, max_subs, max_acs)"
  shows "1 \<le> max_id \<and> 1 \<le> max_subs \<and> 1 \<le> max_acs"
  using process_problems_Inr [OF assms(2)] assms(1) by auto


lemma process_problems_all_filtered:
  assumes "rs \<noteq> []" and "process_problems (JArr rs) = Inr ([], max_id, max_subs, max_acs)"
  shows "max_id = 1 \<and> max_subs = 1 \<and> max_acs = 1"
proof -
  from assms obtain a b c where
    loop: "process_loop rs ([], 0, 0, 0) = Inr ([], a, b, c)"
    and m: "max_id = max 1 a" "max_subs = max 1 b" "max_acs = max 1 c"
    by (auto simp: process_problems_JArr split: sum.splits)
  from process_loop_items [OF loop] have "a = 0 \<and> b = 0 \<and> c = 0" by auto
  with m show ?thesis by simp
qed

subsection \<open>Claim C1: the corpus maxima on an empty input\<close>

text \<open>
  C1 says that each of the three maxima returned by \<^verbatim>\<open>process_problems\<close> is at least 1
  for every input, the empty sequence included, where the result is to be no item and the
  maxima 1, 1, 1.  On the empty list the early return of line 102 gives the maxima 0, 0, 0:
  the floor of line 151 (\<open>process_problems_maxima_floor\<close>,
  \<open>process_problems_all_filtered\<close>) is not reached.
\<close>

theorem process_problems_empty_input:
  "process_problems (JArr []) = Inr ([], 0, 0, 0)"
  by (simp add: process_problems_def)

subsection \<open>Claim C2: the acceptance rate of a canonical item\<close>

text \<open>
  C2, as amended: every item \<^verbatim>\<open>process_problems\<close> returns has as its acceptance rate the
  quotient of its accepted count by its submitted count when the submitted count is
  positive, and 0 otherwise; the rate lies between 0 and 1 whenever the accepted count is
  neither negative nor greater than the submitted count.
\<close>

theorem acceptance_rate_of_items:
  assumes "process_problems raw = Inr (items, max_id, max_subs, max_acs)"
    and "p \<in> set items"
  shows "acceptanceRate p =
           (if totalSubmissions p > 0
            then real_of_int (totalAccepted p) / real_of_int (totalSubmissions p) else 0)
       \<and> (0 \<le> totalAccepted p \<and> totalAccepted p \<le> totalSubmissions p
            \<longrightarrow> 0 \<le> acceptanceRate p \<and> acceptanceRate p \<le> 1)"
proof -
  from process_problems_Inr [OF assms(1)] assms(2) obtain rs a b c where
    "process_loop rs ([], 0, 0, 0) = Inr (items, a, b, c)" by auto
  from process_loop_items [OF this] assms(2) obtain r where
    "process_record r = Inr (Some p)" by auto
  from process_record_rate [OF this] have
    rate: "acceptanceRate p =
           (if totalSubmissions p > 0
            then real_of_int (totalAccepted p) / real_of_int (totalSubmissions p) else 0)" .
  have "0 \<le> acceptanceRate p \<and> acceptanceRate p \<le> 1"
    if "0 \<le> totalAccepted p" "totalAccepted p \<le> totalSubmissions p"
    using that unfolding rate by simp
  with rate show ?thesis by blast
qed

text \<open>The theorem at a record with 1 accepted of 2 submitted.\<close>

theorem acceptance_rate_of_items_witness:
  "process_problems (JArr [JObj [
       (''stat'', JObj [(''frontend_question_id'', JInt 1), (''question__title'', JStr ''Two Sum''),
          (''question__title_slug'', JStr ''two-sum''), (''total_acs'', JInt 1),
          (''total_submitted'', JInt 2)]),
       (''difficulty'', JObj [(''level'', JInt 1)]),
       (''paid_only'', JBool False)]])
     = Inr ([\<lparr>id_field = 1, title = JStr ''Two Sum'', slug = JStr ''two-sum'',
               difficulty = ''Easy'', totalAccepted = 1, totalSubmissions = 2,
               acceptanceRate = 1 / 2,
               url = [Lit ''https://leetcode.com/problems/'', Fmt (JStr ''two-sum''), Lit ''/''],
               trueDifficultyScore = None\<rparr>], 1, 2, 1)
   \<and> (0::real) \<le> 1 / 2 \<and> (1::real) / 2 \<le> 1"
proof -
  let ?raw = "JArr [JObj [
       (''stat'', JObj [(''frontend_question_id'', JInt 1), (''question__title'', JStr ''Two Sum''),
          (''question__title_slug'', JStr ''two-sum''), (''total_acs'', JInt 1),
          (''total_submitted'', JInt 2)]),
       (''difficulty'', JObj [(''level'', JInt 1)]),
       (''paid_only'', JBool False)]]"
  let ?p = "\<lparr>id_field = 1, title = JStr ''Two Sum'', slug = JStr ''two-sum'',
               difficulty = ''Easy'', totalAccepted = 1, totalSubmissions = 2,
               acceptanceRate = 1 / 2,
               url = [Lit ''https://leetcode.com/problems/'', Fmt (JStr ''two-sum''), Lit ''/''],
               trueDifficultyScore = None\<rparr>"
  have run: "process_problems ?raw = Inr ([?p], 1, 2, 1)"
    by (simp add: process_problems_def process_record_def convert_record_def except_skip_def
        true_divide_def         DIFFICULTY_API_MAP_def)
  have mem: "?p \<in> set [?p]" by simp
  from acceptance_rate_of_items [OF run mem] run show ?thesis by simp
qed

text \<open>
  C2 as stated fails: the two counts are converted independently and never compared, so
  a record with 5 accepted of 2 submitted becomes an item whose rate is above 1.
\<close>

theorem acceptance_rate_above_one:
  "process_problems (JArr [JObj [
       (''stat'', JObj [(''frontend_question_id'', JInt 1), (''question__title'', JStr ''Two Sum''),
          (''question__title_slug'', JStr ''two-sum''), (''total_acs'', JInt 5),
          (''total_submitted'', JInt 2)]),
       (''difficulty'', JObj [(''level'', JInt 1)]),
       (''paid_only'', JBool False)]])
     = Inr ([\<lparr>id_field = 1, title = JStr ''Two Sum'', slug = JStr ''two-sum'',
               difficulty = ''Easy'', totalAccepted = 5, totalSubmissions = 2,
               acceptanceRate = 5 / 2,
               url = [Lit ''https://leetcode.com/problems/'', Fmt (JStr ''two-sum''), Lit ''/''],
               trueDifficultyScore = None\<rparr>], 1, 2, 5)
   \<and> \<not> ((5::real) / 2 \<le> 1)"
  by (simp add: process_problems_def process_record_def convert_record_def except_skip_def
        true_divide_def       DIFFICULTY_API_MAP_def)

subsection \<open>Claim C6: records without identifier, slug or known difficulty\<close>

text \<open>
  C6, as amended: a raw record whose identifier is missing or converts to zero, whose slug
  is missing or is the placeholder \<^verbatim>\<open>'N/A'\<close>, or whose difficulty level is missing or
  is not 1, 2 or 3, never yields an item; whenever \<^verbatim>\<open>process_problems\<close> returns on a list
  holding such a record, it returns the same items on the list without that record.
\<close>

theorem records_without_core_fields_absent:
  assumes "lacks_core_fields r"
    and "process_problems (JArr (xs @ r # ys)) = Inr (items, max_id, max_subs, max_acs)"
  shows "(\<forall>p. process_record r \<noteq> Inr (Some p))
       \<and> (\<exists>stats. process_problems (JArr (xs @ ys)) = Inr (items, stats))"
proof -
  have no: "\<And>p. process_record r \<noteq> Inr (Some p)"
    using lacks_core_fields_no_item [OF assms(1)] .
  from process_problems_Inr [OF assms(2)] obtain a b c where
    loop: "process_loop (xs @ r # ys) ([], 0, 0, 0) = Inr (items, a, b, c)"
    by auto
  have split: "process_loop (xs @ r # ys) ([], 0, 0, 0) =
      (case process_loop xs ([], 0, 0, 0) of
         Inl e \<Rightarrow> Inl e | Inr acc' \<Rightarrow> process_loop (r # ys) acc')"
    by (rule process_loop_append)
  obtain acc where
    xs: "process_loop xs ([], 0, 0, 0) = Inr acc"
    and rest: "process_loop (r # ys) acc = Inr (items, a, b, c)"
  proof (cases "process_loop xs ([], 0, 0, 0)")
    case (Inl e)
    with loop split show ?thesis by simp
  next
    case (Inr acc)
    with loop split that show ?thesis by simp
  qed
  from process_loop_skip [OF no rest] have "process_loop ys acc = Inr (items, a, b, c)" .
  with xs have loop': "process_loop (xs @ ys) ([], 0, 0, 0) = Inr (items, a, b, c)"
    by (simp only: process_loop_append [of xs ys] sum.case)
  have "\<exists>stats. process_problems (JArr (xs @ ys)) = Inr (items, stats)"
  proof (cases "xs @ ys = []")
    case True
    with loop' show ?thesis by (simp add: process_problems_JArr)
  next
    case False
    then have "process_problems (JArr (xs @ ys)) = Inr (items, max 1 a, max 1 b, max 1 c)"
      unfolding process_problems_JArr loop' by auto
    then show ?thesis by blast
  qed
  with no show ?thesis by blast
qed

text \<open>The theorem at a list of one good record followed by one whose identifier is 0.\<close>

theorem records_without_core_fields_absent_witness:
  "lacks_core_fields (JObj [
       (''stat'', JObj [(''frontend_question_id'', JInt 0), (''question__title'', JStr ''Ghost''),
          (''question__title_slug'', JStr ''ghost''), (''total_acs'', JInt 3),
          (''total_submitted'', JInt 4)]),
       (''difficulty'', JObj [(''level'', JInt 3)])])
   \<and> (\<exists>stats. process_problems (JArr ([JObj [
       (''stat'', JObj [(''frontend_question_id'', JInt 1), (''question__title'', JStr ''Two Sum''),
          (''question__title_slug'', JStr ''two-sum''), (''total_acs'', JInt 1),
          (''total_submitted'', JInt 2)]),
       (''difficulty'', JObj [(''level'', JInt 1)]),
       (''paid_only'', JBool False)]] @ []))
     = Inr ([\<lparr>id_field = 1, title = JStr ''Two Sum'', slug = JStr ''two-sum'',
               difficulty = ''Easy'', totalAccepted = 1, totalSubmissions = 2,
               acceptanceRate = 1 / 2,
               url = [Lit ''https://leetcode.com/problems/'', Fmt (JStr ''two-sum''), Lit ''/''],
               trueDifficultyScore = None\<rparr>], stats))"
proof -
  let ?good = "JObj [
       (''stat'', JObj [(''frontend_question_id'', JInt 1), (''question__title'', JStr ''Two Sum''),
          (''question__title_slug'', JStr ''two-sum''), (''total_acs'', JInt 1),
          (''total_submitted'', JInt 2)]),
       (''difficulty'', JObj [(''level'', JInt 1)]),
       (''paid_only'', JBool False)]"
  let ?ghost = "JObj [
       (''stat'', JObj [(''frontend_question_id'', JInt 0), (''question__title'', JStr ''Ghost''),
          (''question__title_slug'', JStr ''ghost''), (''total_acs'', JInt 3),
          (''total_submitted'', JInt 4)]),
       (''difficulty'', JObj [(''level'', JInt 3)])]"
  let ?p = "\<lparr>id_field = 1, title = JStr ''Two Sum'', slug = JStr ''two-sum'',
               difficulty = ''Easy'', totalAccepted = 1, totalSubmissions = 2,
               acceptanceRate = 1 / 2,
               url = [Lit ''https://leetcode.com/problems/'', Fmt (JStr ''two-sum''), Lit ''/''],
               trueDifficultyScore = None\<rparr>"
  have bad: "lacks_core_fields ?ghost"
    by (simp add: lacks_core_fields_def raw_field_def)
  have run: "process_problems (JArr ([?good] @ ?ghost # [])) = Inr ([?p], 1, 2, 1)"
    by (simp add: process_problems_def process_record_def convert_record_def except_skip_def
        true_divide_def         DIFFICULTY_API_MAP_def)
  from records_without_core_fields_absent [OF bad run] bad show ?thesis by blast
qed

text \<open>
  C6 as stated fails for the empty slug: the only slug the normalizer rejects is the
  placeholder \<^verbatim>\<open>'N/A'\<close>, so a record whose slug is the empty string is kept.
\<close>

theorem empty_slug_record_kept:
  "process_problems (JArr [JObj [
       (''stat'', JObj [(''frontend_question_id'', JInt 7), (''question__title'', JStr ''X''),
          (''question__title_slug'', JStr []), (''total_acs'', JInt 1),
          (''total_submitted'', JInt 2)]),
       (''difficulty'', JObj [(''level'', JInt 2)]),
       (''paid_only'', JBool False)]])
     = Inr ([\<lparr>id_field = 7, title = JStr ''X'', slug = JStr [],
               difficulty = ''Medium'', totalAccepted = 1, totalSubmissions = 2,
               acceptanceRate = 1 / 2,
               url = [Lit ''https://leetcode.com/problems/'', Fmt (JStr []), Lit ''/''],
               trueDifficultyScore = None\<rparr>], 7, 2, 1)"
  by (simp add: process_problems_def process_record_def convert_record_def except_skip_def
        true_divide_def       DIFFICULTY_API_MAP_def)

section \<open>Properties of the scoring engine\<close>

lemma round_half_even_bounds:
  "\<lfloor>x\<rfloor> \<le> round_half_even x \<and> round_half_even x \<le> \<lfloor>x\<rfloor> + 1"
  by (simp add: round_half_even_def Let_def)

lemma round_half_even_mono:
  assumes "x \<le> y"
  shows "round_half_even x \<le> round_half_even y"
proof (cases "\<lfloor>x\<rfloor> = \<lfloor>y\<rfloor>")
  case True
  with assms have "x - of_int \<lfloor>x\<rfloor> \<le> y - of_int \<lfloor>y\<rfloor>" by simp
  with True show ?thesis
    by (auto simp: round_half_even_def Let_def)
next
  case False
  with assms have "\<lfloor>x\<rfloor> < \<lfloor>y\<rfloor>"
    using floor_mono [OF assms] by linarith
  then have "\<lfloor>x\<rfloor> + 1 \<le> \<lfloor>y\<rfloor>" by simp
  with round_half_even_bounds [of x] round_half_even_bounds [of y] show ?thesis
    by linarith
qed

lemma py_round_mono:
  assumes "x \<le> y"
  shows "py_round x n \<le> py_round y n"
proof -
  have "x * 10 ^ n \<le> y * 10 ^ n" using assms by (simp add: mult_right_mono)
  from round_half_even_mono [OF this] show ?thesis
    by (simp add: py_round_def divide_right_mono)
qed

lemma returned_score_eq:
  "returned_score (calculate_true_difficulty_score st a m sl al) =
     Some (py_round (raw_score (st a) m sl al) 2)"
  by (simp add: returned_score_def returned_problem_def calculate_true_difficulty_score_def
      score_problem_def)

lemma acceptance_term_antimono:
  "r1 \<le> r2 \<Longrightarrow>
     acceptance_term (p\<lparr>acceptanceRate := r2\<rparr>) \<le> acceptance_term (p\<lparr>acceptanceRate := r1\<rparr>)"
  by (simp add: acceptance_term_def acceptance_rate_impact_def)

lemma popularity_term_antimono:
  assumes "s1 \<le> s2"
  shows "popularity_term (p\<lparr>totalSubmissions := s2\<rparr>) sl
       \<le> popularity_term (p\<lparr>totalSubmissions := s1\<rparr>) sl"
proof (cases "sl > 0")
  case False
  then show ?thesis by (simp add: popularity_term_def)
next
  case sl: True
  show ?thesis
  proof (cases "s2 > 0")
    case False
    with assms show ?thesis by (simp add: popularity_term_def)
  next
    case s2: True
    have l2: "0 \<le> ln (1 + real_of_int s2)" using s2 by simp
    show ?thesis
    proof (cases "s1 > 0")
      case False
      have "ln (1 + real_of_int s2) / sl \<ge> 0" using l2 sl by simp
      then have "ln (1 + real_of_int s2) / sl * (- 80) \<le> 0"
        by (rule mult_nonneg_nonpos) simp
      with False s2 sl show ?thesis
        unfolding popularity_term_def log1p_def high_popularity_discount_def by simp
    next
      case s1: True
      have "ln (1 + real_of_int s1) \<le> ln (1 + real_of_int s2)"
        using s1 s2 assms by simp
      then have "ln (1 + real_of_int s1) / sl \<le> ln (1 + real_of_int s2) / sl"
        using sl by (simp add: divide_right_mono)
      then have "ln (1 + real_of_int s2) / sl * (- 80) \<le> ln (1 + real_of_int s1) / sl * (- 80)"
        by (rule mult_right_mono_neg) simp
      with s1 s2 sl show ?thesis
        unfolding popularity_term_def log1p_def high_popularity_discount_def by simp
    qed
  qed
qed

lemma newness_term_mono:
  assumes "i1 \<le> i2"
  shows "newness_term (p\<lparr>id_field := i1\<rparr>) m \<le> newness_term (p\<lparr>id_field := i2\<rparr>) m"
proof (cases "m > 0")
  case False
  then show ?thesis by (simp add: newness_term_def)
next
  case True
  then have "real_of_int i1 / real_of_int m \<le> real_of_int i2 / real_of_int m"
    using assms by (simp add: divide_right_mono)
  then have "real_of_int i1 / real_of_int m * 70 \<le> real_of_int i2 / real_of_int m * 70"
    by (rule mult_right_mono) simp
  with True show ?thesis
    unfolding newness_term_def newness_premium_def by simp
qed

lemma raw_score_acceptanceRate:
  "raw_score (p\<lparr>acceptanceRate := r\<rparr>) m sl al =
     base_score p + acceptance_term (p\<lparr>acceptanceRate := r\<rparr>) + low_accepted_term p al
       + popularity_term p sl + newness_term p m"
  by (simp add: raw_score_def base_score_def low_accepted_term_def popularity_term_def
      newness_term_def)

lemma raw_score_totalSubmissions:
  "raw_score (p\<lparr>totalSubmissions := s\<rparr>) m sl al =
     base_score p + acceptance_term p + low_accepted_term p al
       + popularity_term (p\<lparr>totalSubmissions := s\<rparr>) sl + newness_term p m"
  by (simp add: raw_score_def base_score_def low_accepted_term_def acceptance_term_def
      newness_term_def)

lemma raw_score_id_field:
  "raw_score (p\<lparr>id_field := i\<rparr>) m sl al =
     base_score p + acceptance_term p + low_accepted_term p al
       + popularity_term p sl + newness_term (p\<lparr>id_field := i\<rparr>) m"
  by (simp add: raw_score_def base_score_def low_accepted_term_def acceptance_term_def
      popularity_term_def)

subsection \<open>Claim C3: the worked example\<close>

text \<open>
  C3: for the item with difficulty Hard, acceptance rate 0.10, 500 accepted, 5000 submitted
  and id 2900, scored against the maxima 3000, 2000000 and 1000000 (whose logarithms
  \<^verbatim>\<open>main\<close> passes on), the score stored and returned is the sum
  \<open>450 + 0.9 * 300 + (1 - ln 501 / ln 1000001) * 150 + (ln 5001 / ln 2000001) * (-80)
  + (2900 / 3000) * 70\<close> rounded to two decimals.  The fields the example leaves open are
  arbitrary.
\<close>

theorem score_of_spec_example:
  "returned_score (calculate_true_difficulty_score
      (st(a := \<lparr>id_field = 2900, title = t, slug = s, difficulty = ''Hard'',
                 totalAccepted = 500, totalSubmissions = 5000, acceptanceRate = 1 / 10,
                 url = u, trueDifficultyScore = old\<rparr>))
      a 3000 (log_of_max 2000000) (log_of_max 1000000))
   = Some (py_round (450 + 0.9 * 300 + (1 - ln 501 / ln 1000001) * 150
                      + (ln 5001 / ln 2000001) * (- 80) + (2900 / 3000) * 70) 2)"
proof -
  have "0 < ln (1000001 :: real)" "0 < ln (2000001 :: real)" by simp_all
  then show ?thesis
    by (simp add: returned_score_eq raw_score_def base_score_def acceptance_term_def
        low_accepted_term_def popularity_term_def newness_term_def log_of_max_def log1p_def
        DIFFICULTY_SCORE_BASE_MAP_def acceptance_rate_impact_def low_total_accepted_penalty_def
        high_popularity_discount_def newness_premium_def)
qed

subsection \<open>Claim C5: monotonicity of the score\<close>

text \<open>
  C5: with every other field, the maxima and the store fixed, a smaller acceptance rate
  never gives a smaller score, a larger submission count never gives a larger score, and
  a larger id never gives a smaller score.  Each of the two calls compared returns a score
  (\<open>Some\<close>), and the two scores are compared.
\<close>

theorem score_monotone:
  "(r1 \<le> r2 \<longrightarrow>
      (\<exists>lo hi.
         returned_score (calculate_true_difficulty_score
           (st(a := p\<lparr>acceptanceRate := r2\<rparr>)) a m sl al) = Some lo
       \<and> returned_score (calculate_true_difficulty_score
           (st(a := p\<lparr>acceptanceRate := r1\<rparr>)) a m sl al) = Some hi
       \<and> lo \<le> hi))
 \<and> (s1 \<le> s2 \<longrightarrow>
      (\<exists>lo hi.
         returned_score (calculate_true_difficulty_score
           (st(a := p\<lparr>totalSubmissions := s2\<rparr>)) a m sl al) = Some lo
       \<and> returned_score (calculate_true_difficulty_score
           (st(a := p\<lparr>totalSubmissions := s1\<rparr>)) a m sl al) = Some hi
       \<and> lo \<le> hi))
 \<and> (i1 \<le> i2 \<longrightarrow>
      (\<exists>lo hi.
         returned_score (calculate_true_difficulty_score
           (st(a := p\<lparr>id_field := i1\<rparr>)) a m sl al) = Some lo
       \<and> returned_score (calculate_true_difficulty_score
           (st(a := p\<lparr>id_field := i2\<rparr>)) a m sl al) = Some hi
       \<and> lo \<le> hi))"
proof (intro conjI impI)
  assume "r1 \<le> r2"
  from acceptance_term_antimono [OF this, of p]
  have "raw_score (p\<lparr>acceptanceRate := r2\<rparr>) m sl al
      \<le> raw_score (p\<lparr>acceptanceRate := r1\<rparr>) m sl al"
    unfolding raw_score_acceptanceRate by simp
  from py_round_mono [OF this, of 2] show "\<exists>lo hi.
         returned_score (calculate_true_difficulty_score
           (st(a := p\<lparr>acceptanceRate := r2\<rparr>)) a m sl al) = Some lo
       \<and> returned_score (calculate_true_difficulty_score
           (st(a := p\<lparr>acceptanceRate := r1\<rparr>)) a m sl al) = Some hi
       \<and> lo \<le> hi"
    by (simp add: returned_score_eq)
next
  assume "s1 \<le> s2"
  from popularity_term_antimono [OF this, of p sl]
  have "raw_score (p\<lparr>totalSubmissions := s2\<rparr>) m sl al
      \<le> raw_score (p\<lparr>totalSubmissions := s1\<rparr>) m sl al"
    unfolding raw_score_totalSubmissions by simp
  from py_round_mono [OF this, of 2] show "\<exists>lo hi.
         returned_score (calculate_true_difficulty_score
           (st(a := p\<lparr>totalSubmissions := s2\<rparr>)) a m sl al) = Some lo
       \<and> returned_score (calculate_true_difficulty_score
           (st(a := p\<lparr>totalSubmissions := s1\<rparr>)) a m sl al) = Some hi
       \<and> lo \<le> hi"
    by (simp add: returned_score_eq)
next
  assume "i1 \<le> i2"
  from newness_term_mono [OF this, of p m]
  have "raw_score (p\<lparr>id_field := i1\<rparr>) m sl al
      \<le> raw_score (p\<lparr>id_field := i2\<rparr>) m sl al"
    unfolding raw_score_id_field by simp
  from py_round_mono [OF this, of 2] show "\<exists>lo hi.
         returned_score (calculate_true_difficulty_score
           (st(a := p\<lparr>id_field := i1\<rparr>)) a m sl al) = Some lo
       \<and> returned_score (calculate_true_difficulty_score
           (st(a := p\<lparr>id_field := i2\<rparr>)) a m sl al) = Some hi
       \<and> lo \<le> hi"
    by (simp add: returned_score_eq)
qed

text \<open>
  The three parts on the item of the worked example: rates 0.1 and 0.5, submissions 5000
  and 6000, ids 2900 and 2950.
\<close>

theorem score_monotone_witness:
  "(\<exists>lo hi.
      returned_score (calculate_true_difficulty_score
        ((\<lambda>r. \<lparr>id_field = 2900, title = JStr ''T'', slug = JStr ''t'', difficulty = ''Hard'',
                 totalAccepted = 500, totalSubmissions = 5000, acceptanceRate = 1 / 10,
                 url = [], trueDifficultyScore = None\<rparr>)
         (0 := \<lparr>id_field = 2900, title = JStr ''T'', slug = JStr ''t'', difficulty = ''Hard'',
                 totalAccepted = 500, totalSubmissions = 5000, acceptanceRate = 1 / 10,
                 url = [], trueDifficultyScore = None\<rparr>\<lparr>acceptanceRate := 1 / 2\<rparr>))
        0 3000 (log_of_max 2000000) (log_of_max 1000000)) = Some lo
    \<and> returned_score (calculate_true_difficulty_score
        ((\<lambda>r. \<lparr>id_field = 2900, title = JStr ''T'', slug = JStr ''t'', difficulty = ''Hard'',
                 totalAccepted = 500, totalSubmissions = 5000, acceptanceRate = 1 / 10,
                 url = [], trueDifficultyScore = None\<rparr>)
         (0 := \<lparr>id_field = 2900, title = JStr ''T'', slug = JStr ''t'', difficulty = ''Hard'',
                 totalAccepted = 500, totalSubmissions = 5000, acceptanceRate = 1 / 10,
                 url = [], trueDifficultyScore = None\<rparr>\<lparr>acceptanceRate := 1 / 10\<rparr>))
        0 3000 (log_of_max 2000000) (log_of_max 1000000)) = Some hi
    \<and> lo \<le> hi)
 \<and> (\<exists>lo hi.
      returned_score (calculate_true_difficulty_score
        ((\<lambda>r. \<lparr>id_field = 2900, title = JStr ''T'', slug = JStr ''t'', difficulty = ''Hard'',
                 totalAccepted = 500, totalSubmissions = 5000, acceptanceRate = 1 / 10,
                 url = [], trueDifficultyScore = None\<rparr>)
         (0 := \<lparr>id_field = 2900, title = JStr ''T'', slug = JStr ''t'', difficulty = ''Hard'',
                 totalAccepted = 500, totalSubmissions = 5000, acceptanceRate = 1 / 10,
                 url = [], trueDifficultyScore = None\<rparr>\<lparr>totalSubmissions := 6000\<rparr>))
        0 3000 (log_of_max 2000000) (log_of_max 1000000)) = Some lo
    \<and> returned_score (calculate_true_difficulty_score
        ((\<lambda>r. \<lparr>id_field = 2900, title = JStr ''T'', slug = JStr ''t'', difficulty = ''Hard'',
                 totalAccepted = 500, totalSubmissions = 5000, acceptanceRate = 1 / 10,
                 url = [], trueDifficultyScore = None\<rparr>)
         (0 := \<lparr>id_field = 2900, title = JStr ''T'', slug = JStr ''t'', difficulty = ''Hard'',
                 totalAccepted = 500, totalSubmissions = 5000, acceptanceRate = 1 / 10,
                 url = [], trueDifficultyScore = None\<rparr>\<lparr>totalSubmissions := 5000\<rparr>))
        0 3000 (log_of_max 2000000) (log_of_max 1000000)) = Some hi
    \<and> lo \<le> hi)
 \<and> (\<exists>lo hi.
      returned_score (calculate_true_difficulty_score
        ((\<lambda>r. \<lparr>id_field = 2900, title = JStr ''T'', slug = JStr ''t'', difficulty = ''Hard'',
                 totalAccepted = 500, totalSubmissions = 5000, acceptanceRate = 1 / 10,
                 url = [], trueDifficultyScore = None\<rparr>)
         (0 := \<lparr>id_field = 2900, title = JStr ''T'', slug = JStr ''t'', difficulty = ''Hard'',
                 totalAccepted = 500, totalSubmissions = 5000, acceptanceRate = 1 / 10,
                 url = [], trueDifficultyScore = None\<rparr>\<lparr>id_field := 2900\<rparr>))
        0 3000 (log_of_max 2000000) (log_of_max 1000000)) = Some lo
    \<and> returned_score (calculate_true_difficulty_score
        ((\<lambda>r. \<lparr>id_field = 2900, title = JStr ''T'', slug = JStr ''t'', difficulty = ''Hard'',
                 totalAccepted = 500, totalSubmissions = 5000, acceptanceRate = 1 / 10,
                 url = [], trueDifficultyScore = None\<rparr>)
         (0 := \<lparr>id_field = 2900, title = JStr ''T'', slug = JStr ''t'', difficulty = ''Hard'',
                 totalAccepted = 500, totalSubmissions = 5000, acceptanceRate = 1 / 10,
                 url = [], trueDifficultyScore = None\<rparr>\<lparr>id_field := 2950\<rparr>))
        0 3000 (log_of_max 2000000) (log_of_max 1000000)) = Some hi
    \<and> lo \<le> hi)"
proof -
  have h: "(1::real) / 10 \<le> 1 / 2" "(5000::int) \<le> 6000" "(2900::int) \<le> 2950" by simp_all
  from score_monotone [of "1 / 10" "1 / 2" _ 0 _ 3000 "log_of_max 2000000" "log_of_max 1000000"
      5000 6000 2900 2950] h
  show ?thesis by blast
qed

subsection \<open>Claim C8: the newness premium\<close>

text \<open>
  C8, as amended: the newness step adds \<open>id / max_frontend_id * 70\<close> to the score, the
  quotient not being clamped; for any item and maximum the amount lies between 0 and the
  weight 70 whenever the id lies between 0 and the maximum.  For every item that
  \<^verbatim>\<open>process_problems\<close> returns, scored against the maximum id returned with it, the id is
  at most that maximum and the maximum is positive, so the step is taken, the amount never
  exceeds the weight, and it is negative exactly when the id is negative.
\<close>

theorem newness_term_bounds:
  assumes "process_problems raw = Inr (items, max_id, max_subs, max_acs)"
    and "p \<in> set items"
  shows "raw_score p max_id sl al = raw_score p 0 sl al + newness_term p max_id
       \<and> id_field p \<le> max_id \<and> 0 < max_id
       \<and> newness_term p max_id
            = real_of_int (id_field p) / real_of_int max_id * newness_premium
       \<and> newness_term p max_id \<le> newness_premium
       \<and> (0 \<le> id_field p \<longrightarrow> 0 \<le> newness_term p max_id)
       \<and> (id_field p < 0 \<longrightarrow> newness_term p max_id < 0)
       \<and> (0 \<le> id_field q \<and> id_field q \<le> m
            \<longrightarrow> 0 \<le> newness_term q m \<and> newness_term q m \<le> newness_premium)"
proof -
  from process_problems_Inr [OF assms(1)] assms(2) obtain rs a b c where
    loop: "process_loop rs ([], 0, 0, 0) = Inr (items, a, b, c)"
    and mx: "max_id = max 1 a"
    by auto
  from process_loop_ids [OF loop] assms(2) have "id_field p \<le> a" by simp
  with mx have le: "id_field p \<le> max_id" and pos: "0 < max_id" by simp_all
  have step: "raw_score p max_id sl al = raw_score p 0 sl al + newness_term p max_id"
    by (simp add: raw_score_def newness_term_def)
  have val: "newness_term p max_id
      = real_of_int (id_field p) / real_of_int max_id * newness_premium"
    using pos by (simp add: newness_term_def)
  have "real_of_int (id_field p) / real_of_int max_id \<le> 1" using le pos by simp
  then have "real_of_int (id_field p) / real_of_int max_id * 70 \<le> 1 * 70"
    by (rule mult_right_mono) simp
  then have up: "newness_term p max_id \<le> newness_premium"
    unfolding val newness_premium_def by simp
  have lo: "0 \<le> newness_term p max_id" if "0 \<le> id_field p"
  proof -
    have "0 \<le> real_of_int (id_field p) / real_of_int max_id" using that pos by simp
    then have "0 \<le> real_of_int (id_field p) / real_of_int max_id * 70"
      by (rule mult_nonneg_nonneg) simp
    then show ?thesis unfolding val newness_premium_def by simp
  qed
  have neg: "newness_term p max_id < 0" if "id_field p < 0"
  proof -
    have "real_of_int (id_field p) / real_of_int max_id < 0"
      using that pos by (simp add: divide_neg_pos)
    then have "real_of_int (id_field p) / real_of_int max_id * 70 < 0"
      by (rule mult_neg_pos) simp
    then show ?thesis unfolding val newness_premium_def by simp
  qed
  have gen: "0 \<le> newness_term q m \<and> newness_term q m \<le> newness_premium"
    if h: "0 \<le> id_field q" "id_field q \<le> m"
  proof (cases "m > 0")
    case False
    then show ?thesis by (simp add: newness_term_def newness_premium_def)
  next
    case True
    have "0 \<le> real_of_int (id_field q) / real_of_int m" using h True by simp
    moreover have "real_of_int (id_field q) / real_of_int m \<le> 1" using h True by simp
    ultimately have "0 \<le> real_of_int (id_field q) / real_of_int m * 70"
      "real_of_int (id_field q) / real_of_int m * 70 \<le> 1 * 70"
      by (simp_all only: mult_right_mono zero_le_mult_iff) simp_all
    with True show ?thesis
      unfolding newness_term_def newness_premium_def by simp
  qed
  from step le pos val up lo neg gen show ?thesis by blast
qed

text \<open>The theorem at a list of two records with the ids 1 and 3, for the first item.\<close>

theorem newness_term_bounds_witness:
  "process_problems (JArr [
     JObj [(''stat'', JObj [(''frontend_question_id'', JInt 1), (''question__title'', JStr ''A''),
              (''question__title_slug'', JStr ''a''), (''total_acs'', JInt 1),
              (''total_submitted'', JInt 2)]),
           (''difficulty'', JObj [(''level'', JInt 1)])],
     JObj [(''stat'', JObj [(''frontend_question_id'', JInt 3), (''question__title'', JStr ''B''),
              (''question__title_slug'', JStr ''b''), (''total_acs'', JInt 1),
              (''total_submitted'', JInt 4)]),
           (''difficulty'', JObj [(''level'', JInt 3)])]])
   = Inr ([\<lparr>id_field = 1, title = JStr ''A'', slug = JStr ''a'', difficulty = ''Easy'',
             totalAccepted = 1, totalSubmissions = 2, acceptanceRate = 1 / 2,
             url = [Lit ''https://leetcode.com/problems/'', Fmt (JStr ''a''), Lit ''/''],
             trueDifficultyScore = None\<rparr>,
           \<lparr>id_field = 3, title = JStr ''B'', slug = JStr ''b'', difficulty = ''Hard'',
             totalAccepted = 1, totalSubmissions = 4, acceptanceRate = 1 / 4,
             url = [Lit ''https://leetcode.com/problems/'', Fmt (JStr ''b''), Lit ''/''],
             trueDifficultyScore = None\<rparr>], 3, 4, 1)
 \<and> 0 \<le> newness_term \<lparr>id_field = 1, title = JStr ''A'', slug = JStr ''a'', difficulty = ''Easy'',
             totalAccepted = 1, totalSubmissions = 2, acceptanceRate = 1 / 2,
             url = [Lit ''https://leetcode.com/problems/'', Fmt (JStr ''a''), Lit ''/''],
             trueDifficultyScore = None\<rparr> 3
 \<and> newness_term \<lparr>id_field = 1, title = JStr ''A'', slug = JStr ''a'', difficulty = ''Easy'',
             totalAccepted = 1, totalSubmissions = 2, acceptanceRate = 1 / 2,
             url = [Lit ''https://leetcode.com/problems/'', Fmt (JStr ''a''), Lit ''/''],
             trueDifficultyScore = None\<rparr> 3 \<le> newness_premium"
proof -
  let ?raw = "JArr [
     JObj [(''stat'', JObj [(''frontend_question_id'', JInt 1), (''question__title'', JStr ''A''),
              (''question__title_slug'', JStr ''a''), (''total_acs'', JInt 1),
              (''total_submitted'', JInt 2)]),
           (''difficulty'', JObj [(''level'', JInt 1)])],
     JObj [(''stat'', JObj [(''frontend_question_id'', JInt 3), (''question__title'', JStr ''B''),
              (''question__title_slug'', JStr ''b''), (''total_acs'', JInt 1),
              (''total_submitted'', JInt 4)]),
           (''difficulty'', JObj [(''level'', JInt 3)])]]"
  let ?p = "\<lparr>id_field = 1, title = JStr ''A'', slug = JStr ''a'', difficulty = ''Easy'',
             totalAccepted = 1, totalSubmissions = 2, acceptanceRate = 1 / 2,
             url = [Lit ''https://leetcode.com/problems/'', Fmt (JStr ''a''), Lit ''/''],
             trueDifficultyScore = None\<rparr>"
  let ?q = "\<lparr>id_field = 3, title = JStr ''B'', slug = JStr ''b'', difficulty = ''Hard'',
             totalAccepted = 1, totalSubmissions = 4, acceptanceRate = 1 / 4,
             url = [Lit ''https://leetcode.com/problems/'', Fmt (JStr ''b''), Lit ''/''],
             trueDifficultyScore = None\<rparr>"
  have run: "process_problems ?raw = Inr ([?p, ?q], 3, 4, 1)"
    by (simp add: process_problems_def process_record_def convert_record_def except_skip_def
        true_divide_def DIFFICULTY_API_MAP_def)
  have mem: "?p \<in> set [?p, ?q]" by simp
  have idp: "(0::int) \<le> id_field ?p" by simp
  from newness_term_bounds [OF run mem] idp run show ?thesis by blast
qed

text \<open>
  C8 as stated fails: the quotient is not clamped.  An item with id 6000 scored against
  the maximum 3000 gets the newness term 140, twice the weight, and the score 670; an item
  with id -3000 gets the term -70.
\<close>

theorem newness_unclamped:
  "returned_score (calculate_true_difficulty_score
      (\<lambda>r. \<lparr>id_field = 6000, title = JStr ''T'', slug = JStr ''t'', difficulty = ''Easy'',
              totalAccepted = 0, totalSubmissions = 0, acceptanceRate = 0,
              url = [], trueDifficultyScore = None\<rparr>)
      0 3000 (log_of_max 1) (log_of_max 1)) = Some 670
 \<and> newness_term \<lparr>id_field = 6000, title = JStr ''T'', slug = JStr ''t'', difficulty = ''Easy'',
              totalAccepted = 0, totalSubmissions = 0, acceptanceRate = 0,
              url = [], trueDifficultyScore = None\<rparr> 3000 = 140
 \<and> \<not> (140 \<le> newness_premium)
 \<and> newness_term \<lparr>id_field = - 3000, title = JStr ''T'', slug = JStr ''t'', difficulty = ''Easy'',
              totalAccepted = 0, totalSubmissions = 0, acceptanceRate = 0,
              url = [], trueDifficultyScore = None\<rparr> 3000 = - 70
 \<and> \<not> (0 \<le> (- 70 :: real))"
proof -
  have r: "round_half_even 67000 = 67000"
    by (simp add: round_half_even_def)
  have l: "0 < ln (2 :: real)" by simp
  show ?thesis
    using l
    by (simp add: returned_score_eq raw_score_def base_score_def acceptance_term_def
        low_accepted_term_def popularity_term_def newness_term_def log_of_max_def log1p_def
        DIFFICULTY_SCORE_BASE_MAP_def acceptance_rate_impact_def low_total_accepted_penalty_def
        high_popularity_discount_def newness_premium_def py_round_def r)
qed

subsection \<open>Claim C10: scoring changes only the score\<close>

text \<open>
  C10: the call returns the reference it was given; the store after the call differs from
  the store before only at that reference, where the dictionary has its key
  \<^verbatim>\<open>trueDifficultyScore\<close> set to the rounded score; the keys \<^verbatim>\<open>id\<close>, \<^verbatim>\<open>title\<close>,
  \<^verbatim>\<open>slug\<close>, \<^verbatim>\<open>difficulty\<close>, \<^verbatim>\<open>totalAccepted\<close>, \<^verbatim>\<open>totalSubmissions\<close>,
  \<^verbatim>\<open>acceptanceRate\<close> and \<^verbatim>\<open>url\<close> of the returned dictionary hold what they held before.
\<close>

theorem scoring_changes_only_the_score:
  "fst (calculate_true_difficulty_score st a m sl al) = a
 \<and> snd (calculate_true_difficulty_score st a m sl al) =
     st(a := (st a)\<lparr>trueDifficultyScore := Some (py_round (raw_score (st a) m sl al) 2)\<rparr>)
 \<and> id_field (returned_problem (calculate_true_difficulty_score st a m sl al)) = id_field (st a)
 \<and> title (returned_problem (calculate_true_difficulty_score st a m sl al)) = title (st a)
 \<and> slug (returned_problem (calculate_true_difficulty_score st a m sl al)) = slug (st a)
 \<and> difficulty (returned_problem (calculate_true_difficulty_score st a m sl al))
      = difficulty (st a)
 \<and> totalAccepted (returned_problem (calculate_true_difficulty_score st a m sl al))
      = totalAccepted (st a)
 \<and> totalSubmissions (returned_problem (calculate_true_difficulty_score st a m sl al))
      = totalSubmissions (st a)
 \<and> acceptanceRate (returned_problem (calculate_true_difficulty_score st a m sl al))
      = acceptanceRate (st a)
 \<and> url (returned_problem (calculate_true_difficulty_score st a m sl al)) = url (st a)"
  by (simp add: calculate_true_difficulty_score_def returned_problem_def score_problem_def)

section \<open>Properties of the ranking\<close>

lemma keys_of_Inr:
  "keys_of ps = Inr ks \<Longrightarrow> map trueDifficultyScore ps = map Some ks"
proof (induction ps arbitrary: ks)
  case Nil
  then show ?case by simp
next
  case (Cons p ps)
  then show ?case
    by (auto simp: and_then_Inr_iff score_key_def split: option.splits)
qed

lemma keys_of_total:
  "list_all (\<lambda>p. trueDifficultyScore p \<noteq> None) ps \<Longrightarrow> \<exists>ks. keys_of ps = Inr ks"
proof (induction ps)
  case Nil
  then show ?case by simp
next
  case (Cons p ps)
  then obtain ks s where "keys_of ps = Inr ks" "trueDifficultyScore p = Some s" by auto
  then show ?case by (simp add: score_key_def)
qed

lemma zip_keys:
  assumes "map trueDifficultyScore ps = map Some ks"
  shows "\<forall>z\<in>set (zip ks ps). trueDifficultyScore (snd z) = Some (fst z)"
    and "map snd (zip ks ps) = ps"
proof -
  from assms have len: "length ks = length ps"
    by (metis length_map)
  show "map snd (zip ks ps) = ps" using len by simp
  show "\<forall>z\<in>set (zip ks ps). trueDifficultyScore (snd z) = Some (fst z)"
  proof
    fix z assume "z \<in> set (zip ks ps)"
    then obtain i where i: "i < length ks" "i < length ps" "z = (ks ! i, ps ! i)"
      by (auto simp: set_zip)
    from assms i have "map trueDifficultyScore ps ! i = map Some ks ! i" by simp
    with i show "trueDifficultyScore (snd z) = Some (fst z)" by simp
  qed
qed

lemma py_sorted_reverse_set: "set (py_sorted key True xs) = set xs"
  by (simp add: py_sorted_def)

lemma py_sorted_reverse_mset: "mset (py_sorted key True xs) = mset xs"
  by (simp add: py_sorted_def)

lemma py_sorted_reverse_descending:
  "sorted_wrt (\<lambda>a b. a \<ge> b) (map key (py_sorted key True xs))"
proof -
  have "sorted (map key (sort_key key (rev xs)))" by (rule sorted_sort_key)
  then have "sorted_wrt (\<lambda>a b. a \<ge> b) (rev (map key (sort_key key (rev xs))))"
    by (simp add: sorted_wrt_rev)
  then show ?thesis by (simp add: py_sorted_def rev_map)
qed

lemma py_sorted_reverse_stable:
  "filter (\<lambda>x. key x = k) (py_sorted key True xs) = filter (\<lambda>x. key x = k) xs"
proof -
  have "filter (\<lambda>x. key x = k) (rev (sort_key key (rev xs)))
      = rev (filter (\<lambda>x. key x = k) (sort_key key (rev xs)))"
    by (simp add: rev_filter)
  also have "\<dots> = rev (filter (\<lambda>x. key x = k) (rev xs))"
    by (simp only: sort_key_stable)
  also have "\<dots> = filter (\<lambda>x. key x = k) xs"
    by (simp add: rev_filter)
  finally show ?thesis by (simp add: py_sorted_def)
qed

lemma scored_items_have_scores:
  "list_all (\<lambda>p. trueDifficultyScore p \<noteq> None) (map (\<lambda>p. score_problem p m sl al) ps)"
  by (induction ps) (simp_all add: score_problem_def)

lemma rank_problems_Ranked:
  assumes "rank_problems raw = Ranked out"
  shows "\<exists>problems max_id max_subs max_acs.
       process_problems raw = Inr (problems, max_id, max_subs, max_acs)
     \<and> sort_by_score (map (\<lambda>p. score_problem p max_id (log_of_max max_subs)
                                   (log_of_max max_acs)) problems) = Inr out"
  using assms
  by (auto simp: rank_problems_def Let_def split: if_splits sum.splits)

subsection \<open>Claim C4: the ranking is a stable descending sort\<close>

text \<open>
  C4: on every sequence of scored items the sort of line 234 returns; the scores of its
  output are non-increasing; the items with any one score appear in the output in the
  order they have in the input; and the output has exactly the items of the input.
\<close>

theorem ranking_stable_descending:
  assumes "list_all (\<lambda>p. trueDifficultyScore p \<noteq> None) scored_problems"
  shows "\<exists>sorted_problems ks.
       sort_by_score scored_problems = Inr sorted_problems
     \<and> map trueDifficultyScore sorted_problems = map Some ks
     \<and> sorted_wrt (\<lambda>a b. a \<ge> b) ks
     \<and> (\<forall>k. filter (\<lambda>p. trueDifficultyScore p = Some k) sorted_problems
            = filter (\<lambda>p. trueDifficultyScore p = Some k) scored_problems)
     \<and> mset sorted_problems = mset scored_problems"
proof -
  from keys_of_total [OF assms] obtain ks0 where ks0: "keys_of scored_problems = Inr ks0" ..
  let ?Z = "zip ks0 scored_problems"
  let ?S = "py_sorted fst True ?Z"
  have run: "sort_by_score scored_problems = Inr (map snd ?S)"
    by (simp add: sort_by_score_def ks0)
  note zk = zip_keys [OF keys_of_Inr [OF ks0]]
  have rel: "\<forall>z\<in>set ?S. trueDifficultyScore (snd z) = Some (fst z)"
    using zk(1) by (simp only: py_sorted_reverse_set)
  have keys: "map trueDifficultyScore (map snd ?S) = map Some (map fst ?S)"
    using rel by simp
  have desc: "sorted_wrt (\<lambda>a b. a \<ge> b) (map fst ?S)"
    by (rule py_sorted_reverse_descending)
  have stable: "filter (\<lambda>p. trueDifficultyScore p = Some k) (map snd ?S)
       = filter (\<lambda>p. trueDifficultyScore p = Some k) scored_problems" for k
  proof -
    have "filter (\<lambda>p. trueDifficultyScore p = Some k) (map snd ?S)
        = map snd (filter (\<lambda>z. trueDifficultyScore (snd z) = Some k) ?S)"
      by (simp add: filter_map comp_def)
    also have "filter (\<lambda>z. trueDifficultyScore (snd z) = Some k) ?S
        = filter (\<lambda>z. fst z = k) ?S"
      using rel by (intro filter_cong) auto
    also have "\<dots> = filter (\<lambda>z. fst z = k) ?Z"
      by (rule py_sorted_reverse_stable)
    also have "\<dots> = filter (\<lambda>z. trueDifficultyScore (snd z) = Some k) ?Z"
      using zk(1) by (intro filter_cong) auto
    also have "map snd \<dots> = filter (\<lambda>p. trueDifficultyScore p = Some k) (map snd ?Z)"
      by (simp add: filter_map comp_def)
    finally show ?thesis by (simp only: zk(2))
  qed
  have "mset (map snd ?S) = image_mset snd (mset ?Z)"
    by (simp add: py_sorted_reverse_mset)
  also have "\<dots> = mset (map snd ?Z)" by simp
  finally have perm: "mset (map snd ?S) = mset scored_problems"
    by (simp only: zk(2))
  from run keys desc stable perm show ?thesis by blast
qed

text \<open>Three items scored 1, 2, 1: the second comes first, the other two keep their order.\<close>

theorem ranking_stable_descending_witness:
  "list_all (\<lambda>p. trueDifficultyScore p \<noteq> None)
     (map (\<lambda>(t, s). \<lparr>id_field = 1, title = JStr t, slug = JStr t, difficulty = ''Easy'',
                      totalAccepted = 1, totalSubmissions = 2, acceptanceRate = 1 / 2,
                      url = [], trueDifficultyScore = Some s\<rparr>)
        [(''A'', 1), (''B'', 2), (''C'', 1)])
 \<and> sort_by_score
     (map (\<lambda>(t, s). \<lparr>id_field = 1, title = JStr t, slug = JStr t, difficulty = ''Easy'',
                      totalAccepted = 1, totalSubmissions = 2, acceptanceRate = 1 / 2,
                      url = [], trueDifficultyScore = Some s\<rparr>)
        [(''A'', 1), (''B'', 2), (''C'', 1)])
   = Inr (map (\<lambda>(t, s). \<lparr>id_field = 1, title = JStr t, slug = JStr t, difficulty = ''Easy'',
                      totalAccepted = 1, totalSubmissions = 2, acceptanceRate = 1 / 2,
                      url = [], trueDifficultyScore = Some s\<rparr>)
        [(''B'', 2), (''A'', 1), (''C'', 1)])
 \<and> mset (map (\<lambda>(t, s). \<lparr>id_field = 1, title = JStr t, slug = JStr t, difficulty = ''Easy'',
                      totalAccepted = 1, totalSubmissions = 2, acceptanceRate = 1 / 2,
                      url = [], trueDifficultyScore = Some s\<rparr>)
        [(''B'', 2 :: real), (''A'', 1), (''C'', 1)])
   = mset (map (\<lambda>(t, s). \<lparr>id_field = 1, title = JStr t, slug = JStr t, difficulty = ''Easy'',
                      totalAccepted = 1, totalSubmissions = 2, acceptanceRate = 1 / 2,
                      url = [], trueDifficultyScore = Some s\<rparr>)
        [(''A'', 1), (''B'', 2), (''C'', 1)])"
proof -
  let ?mk = "\<lambda>(t, s). \<lparr>id_field = 1, title = JStr t, slug = JStr t, difficulty = ''Easy'',
                      totalAccepted = 1, totalSubmissions = 2, acceptanceRate = 1 / 2,
                      url = [], trueDifficultyScore = Some (s :: real)\<rparr>"
  let ?in = "map ?mk [(''A'', 1), (''B'', 2), (''C'', 1)]"
  let ?out = "map ?mk [(''B'', 2), (''A'', 1), (''C'', 1)]"
  have scored: "list_all (\<lambda>p. trueDifficultyScore p \<noteq> None) ?in" by simp
  have run: "sort_by_score ?in = Inr ?out"
    by (simp add: sort_by_score_def score_key_def py_sorted_def)
  from ranking_stable_descending [OF scored] obtain sorted_problems where
    "sort_by_score ?in = Inr sorted_problems" "mset sorted_problems = mset ?in"
    by blast
  with run have "mset ?out = mset ?in" by simp
  with scored run show ?thesis by blast
qed

section \<open>Properties of the cache store\<close>

lemma write_chunks_concat: "write_chunks chunks buffer = buffer @ concat chunks"
  by (induction chunks arbitrary: buffer) simp_all

lemma load_cache_miss:
  assumes "cache w = None \<or> (\<exists>f. cache w = Some f \<and> \<not> clock w - mtime f < 86400)"
  shows "load_problems_from_cache decode w = Inr JNull"
  using assms
  by (auto simp: load_problems_from_cache_def CACHE_EXPIRY_DAYS_def)

lemma main_cache_miss_fetches:
  assumes "load_problems_from_cache decode w = Inr JNull"
  shows "main decode encode http w =
     (case fetch_problems_from_api_rest http of
        Inl e \<Rightarrow> (w, Crashed e)
      | Inr fetched_data \<Rightarrow>
          if truthy fetched_data
          then (case save_problems_to_cache encode w fetched_data of
                  (w', Inl e) \<Rightarrow> (w', Crashed e)
                | (w', Inr u) \<Rightarrow> (w', rank_problems fetched_data))
          else (w, FetchFailed))"
  using assms by (simp add: main_def)

subsection \<open>Claim C7: a failing read of the cache\<close>

text \<open>
  C7 says that a read failure or a corrupt cache never crashes the run and is turned into
  a cache miss, after which the pipeline fetches.  Neither \<^verbatim>\<open>load_problems_from_cache\<close>
  nor \<^verbatim>\<open>main\<close> catches anything: with a cache file one minute old that cannot be read, or
  that holds the text \<^verbatim>\<open>[{\<close> which no decoder accepts, the exception leaves
  \<^verbatim>\<open>load_problems_from_cache\<close> and ends \<^verbatim>\<open>main\<close>, whatever the fetch would have given.
  (A missing or expired file is a miss and does lead to the fetch: \<open>load_cache_miss\<close>,
  \<open>main_cache_miss_fetches\<close>.)
\<close>

theorem cache_read_failure_crashes:
  "load_problems_from_cache decode
      \<lparr>cache = Some \<lparr>mtime = 0, content = c\<rparr>, clock = 60, read_fault = True,
       open_fault = False, write_fault = None\<rparr> = Inl OSError
 \<and> main decode encode http
      \<lparr>cache = Some \<lparr>mtime = 0, content = c\<rparr>, clock = 60, read_fault = True,
       open_fault = False, write_fault = None\<rparr>
    = (\<lparr>cache = Some \<lparr>mtime = 0, content = c\<rparr>, clock = 60, read_fault = True,
        open_fault = False, write_fault = None\<rparr>, Crashed OSError)
 \<and> load_problems_from_cache (decode(''[{'' := None))
      \<lparr>cache = Some \<lparr>mtime = 0, content = ''[{''\<rparr>, clock = 60, read_fault = False,
       open_fault = False, write_fault = None\<rparr> = Inl JSONDecodeError
 \<and> main (decode(''[{'' := None)) encode http
      \<lparr>cache = Some \<lparr>mtime = 0, content = ''[{''\<rparr>, clock = 60, read_fault = False,
       open_fault = False, write_fault = None\<rparr>
    = (\<lparr>cache = Some \<lparr>mtime = 0, content = ''[{''\<rparr>, clock = 60, read_fault = False,
        open_fault = False, write_fault = None\<rparr>, Crashed JSONDecodeError)"
  by (simp add: main_def load_problems_from_cache_def CACHE_EXPIRY_DAYS_def)

subsection \<open>Claim C9: saving the cache\<close>

text \<open>
  C9, as amended: \<^verbatim>\<open>save_problems_to_cache\<close> is not atomic; it overwrites the one cache
  file in place.  When the payload has a length and the file opens, the old text is gone.
  If the medium does not fail within the serialisation, the file holds it and the call
  returns; if the medium fails after \<open>k\<close> characters, \<open>k\<close> at most the length of the
  serialisation, the file is left with the first \<open>k\<close> characters of the serialisation
  and the error leaves the function.
\<close>

theorem save_overwrites_in_place:
  assumes "py_len problems = Inr n" and "\<not> open_fault w"
  shows "save_problems_to_cache encode w problems =
     (case write_fault w of
        None \<Rightarrow>
          (w\<lparr>cache := Some \<lparr>mtime = clock w, content = concat (encode problems)\<rparr>\<rparr>, Inr ())
      | Some k \<Rightarrow>
          if k \<le> length (concat (encode problems))
          then (w\<lparr>cache := Some \<lparr>mtime = clock w,
                                   content = take k (concat (encode problems))\<rparr>\<rparr>,
                Inl OSError)
          else (w\<lparr>cache := Some \<lparr>mtime = clock w, content = concat (encode problems)\<rparr>\<rparr>,
                Inr ()))"
  using assms
  by (simp add: save_problems_to_cache_def flush_buffer_def write_chunks_concat
      split: option.splits)

text \<open>
  The theorem at the payload \<^verbatim>\<open>[1, 2]\<close> written in three chunks to a medium that does
  not fail.
\<close>

theorem save_overwrites_in_place_witness:
  "py_len (JArr [JInt 1, JInt 2]) = Inr 2
 \<and> save_problems_to_cache (\<lambda>j. [''[1'', '', 2'', '']''])
      \<lparr>cache = Some \<lparr>mtime = 0, content = ''[]''\<rparr>, clock = 100, read_fault = False,
       open_fault = False, write_fault = None\<rparr> (JArr [JInt 1, JInt 2])
    = (\<lparr>cache = Some \<lparr>mtime = 100, content = ''[1, 2]''\<rparr>, clock = 100, read_fault = False,
        open_fault = False, write_fault = None\<rparr>, Inr ())"
proof -
  have len: "py_len (JArr [JInt 1, JInt 2]) = Inr 2" by simp
  have op: "\<not> open_fault \<lparr>cache = Some \<lparr>mtime = 0, content = ''[]''\<rparr>, clock = 100,
       read_fault = False, open_fault = False, write_fault = None\<rparr>" by simp
  from save_overwrites_in_place [OF len op, of "\<lambda>j. [''[1'', '', 2'', '']'']"] len
  show ?thesis by simp
qed

text \<open>
  C9 as stated fails: the save is not atomic.  When the medium fails after four characters
  of the six, the file holds the text \<^verbatim>\<open>[1, \<close>, which is neither the old entry nor the
  new one and ends inside a chunk, and a load one minute later opens it and hands it to the
  decoder.
\<close>

theorem failed_save_leaves_truncated_entry:
  "save_problems_to_cache (\<lambda>j. [''[1'', '', 2'', '']''])
      \<lparr>cache = Some \<lparr>mtime = 0, content = ''[]''\<rparr>, clock = 100, read_fault = False,
       open_fault = False, write_fault = Some 4\<rparr> (JArr [JInt 1, JInt 2])
    = (\<lparr>cache = Some \<lparr>mtime = 100, content = ''[1, ''\<rparr>, clock = 100, read_fault = False,
        open_fault = False, write_fault = Some 4\<rparr>, Inl OSError)
 \<and> ''[1, '' \<noteq> ''[]'' \<and> ''[1, '' \<noteq> concat [''[1'', '', 2'', '']'']
 \<and> load_problems_from_cache [''[]'' \<mapsto> JArr [], ''[1, 2]'' \<mapsto> JArr [JInt 1, JInt 2]]
      \<lparr>cache = Some \<lparr>mtime = 100, content = ''[1, ''\<rparr>, clock = 160, read_fault = False,
       open_fault = False, write_fault = None\<rparr>
    = Inl JSONDecodeError"
  by (simp add: save_problems_to_cache_def flush_buffer_def load_problems_from_cache_def
      CACHE_EXPIRY_DAYS_def)

end
